theory Spec2Isabelle
  imports Main "HOL-Library.Word"
begin

unbundle bit_operations_syntax

section \<open>vmcheck: a shallow embedding of \<^verbatim>\<open>main.c\<close>\<close>

text \<open>
  The driver measures how long \<^verbatim>\<open>CPUID\<close> takes, with three clock sources, and stores
  one number and one verdict per probe in the global \<^verbatim>\<open>testResults\<close>.

  Everything the C code reaches outside its own variables is a field of the record
  \<open>machine\<close>: the counter values the hardware hands out, the thread's affinity, the
  IRQL, the interrupt flag and the debug log. A division by zero does not return in the
  kernel (the \<^verbatim>\<open>div\<close> instruction raises \<^verbatim>\<open>#DE\<close>), so the functions that divide
  return \<open>fault + machine\<close>.
\<close>

subsection \<open>Types of the Windows headers\<close>

type_synonym DWORD64 = "64 word"
type_synonym ULONG = "32 word"
type_synonym USHORT = "16 word"
type_synonym UCHAR = "8 word"
type_synonym KIRQL = "8 word"
type_synonym NTSTATUS = "32 word"

record PROCESSOR_NUMBER =
  pn_Group :: USHORT
  pn_Number :: UCHAR
  pn_Reserved :: UCHAR

record GROUP_AFFINITY =
  ga_Mask :: DWORD64
  ga_Group :: USHORT
  ga_Reserved :: "USHORT list"

text \<open>\<^verbatim>\<open>NT_SUCCESS(Status)\<close> is \<^verbatim>\<open>((NTSTATUS)(Status)) >= 0\<close>, a signed comparison.\<close>

definition NT_SUCCESS :: "NTSTATUS \<Rightarrow> bool" where
  "NT_SUCCESS status = (0 \<le> sint status)"

definition STATUS_SUCCESS :: NTSTATUS where
  "STATUS_SUCCESS = 0"

definition STATUS_INVALID_PARAMETER :: NTSTATUS where
  "STATUS_INVALID_PARAMETER = 0xC000000D"

text \<open>\<^verbatim>\<open>HIGH_LEVEL\<close> on x64, the target of a driver that uses \<^verbatim>\<open>DWORD64\<close> intrinsics.\<close>

definition HIGH_LEVEL :: KIRQL where
  "HIGH_LEVEL = 15"

definition PASSIVE_LEVEL :: KIRQL where
  "PASSIVE_LEVEL = 0"

subsection \<open>Constants and data of \<^verbatim>\<open>main.c\<close>\<close>

definition IA32_MPERF_MSR :: ULONG where
  "IA32_MPERF_MSR = 0x000000E7"

definition IA32_APERF_MSR :: ULONG where
  "IA32_APERF_MSR = 0x000000E8"

definition IA32_TIME_STAMP_COUNTER :: ULONG where
  "IA32_TIME_STAMP_COUNTER = 0x00000010"

record TestResults =
  RdtscCalculated :: DWORD64
  RdtscFail :: bool
  TimestampCalculated :: DWORD64
  TimestampFail :: bool
  AperfCalculated :: DWORD64
  AperfFail :: bool

subsection \<open>The machine\<close>

text \<open>
  \<open>event\<close> lists what the probes execute besides arithmetic, in program order.
  \<open>fmt_arg\<close> is one variadic argument of \<^verbatim>\<open>DbgPrintEx\<close>; a log entry is the format
  string together with its arguments, as the sink receives them.
\<close>

datatype event =
  EvRdtsc
  | EvReadMsr ULONG
  | EvCpuid int
  | EvDelay int

datatype fmt_arg = ArgU64 DWORD64 | ArgStr string

datatype fault = DivideError

record machine =
  testResults :: TestResults
  readings :: "nat \<Rightarrow> DWORD64"
  reads :: nat
  trail :: "event list"
  activeProcessorCount :: ULONG
  processorLookup :: "ULONG \<Rightarrow> NTSTATUS \<times> PROCESSOR_NUMBER"
  threadAffinity :: GROUP_AFFINITY
  irql :: KIRQL
  interruptsEnabled :: bool
  dbgLog :: "(string \<times> fmt_arg list) list"
  buildDate :: string

text \<open>
  \<open>readings s n\<close> is the value the \<open>n\<close>-th counter read of the run returns, whichever
  counter it reads: the program's sequence of reads does not depend on the values, so
  this covers every behaviour of the hardware. \<open>reads s\<close> counts the reads done so far.
\<close>

subsection \<open>Intrinsics and kernel routines\<close>

definition rdtsc :: "machine \<Rightarrow> DWORD64 \<times> machine" where
  "rdtsc s = (readings s (reads s),
     s\<lparr>reads := Suc (reads s), trail := trail s @ [EvRdtsc]\<rparr>)"

definition readmsr :: "ULONG \<Rightarrow> machine \<Rightarrow> DWORD64 \<times> machine" where
  "readmsr msr s = (readings s (reads s),
     s\<lparr>reads := Suc (reads s), trail := trail s @ [EvReadMsr msr]\<rparr>)"

definition cpuid :: "int \<Rightarrow> machine \<Rightarrow> machine" where
  "cpuid leaf s = s\<lparr>trail := trail s @ [EvCpuid leaf]\<rparr>"

definition KeDelayExecutionThread :: "int \<Rightarrow> machine \<Rightarrow> machine" where
  "KeDelayExecutionThread interval s = s\<lparr>trail := trail s @ [EvDelay interval]\<rparr>"

definition DbgPrintEx :: "string \<Rightarrow> fmt_arg list \<Rightarrow> machine \<Rightarrow> machine" where
  "DbgPrintEx fmt args s = s\<lparr>dbgLog := dbgLog s @ [(fmt, args)]\<rparr>"

text \<open>\<^verbatim>\<open>#define Log(x, ...) DbgPrintEx(0, 0, "[vmcheck] " x, __VA_ARGS__)\<close>\<close>

definition Log :: "string \<Rightarrow> fmt_arg list \<Rightarrow> machine \<Rightarrow> machine" where
  "Log x args s = DbgPrintEx (''[vmcheck] '' @ x) args s"

definition KeQueryActiveProcessorCountEx :: "machine \<Rightarrow> ULONG" where
  "KeQueryActiveProcessorCountEx s = activeProcessorCount s"

definition KeGetProcessorNumberFromIndex ::
  "ULONG \<Rightarrow> machine \<Rightarrow> NTSTATUS \<times> PROCESSOR_NUMBER" where
  "KeGetProcessorNumberFromIndex procIndex s = processorLookup s procIndex"

text \<open>
  The contract of the two affinity routines: the first installs the new affinity and
  hands back what it replaced, the second installs what it is given.
\<close>

definition KeSetSystemGroupAffinityThread ::
  "GROUP_AFFINITY \<Rightarrow> machine \<Rightarrow> GROUP_AFFINITY \<times> machine" where
  "KeSetSystemGroupAffinityThread affinity s =
     (threadAffinity s, s\<lparr>threadAffinity := affinity\<rparr>)"

definition KeRevertToUserGroupAffinityThread ::
  "GROUP_AFFINITY \<Rightarrow> machine \<Rightarrow> machine" where
  "KeRevertToUserGroupAffinityThread previousAffinity s =
     s\<lparr>threadAffinity := previousAffinity\<rparr>"

definition KeRaiseIrql :: "KIRQL \<Rightarrow> machine \<Rightarrow> KIRQL \<times> machine" where
  "KeRaiseIrql newIrql s = (irql s, s\<lparr>irql := newIrql\<rparr>)"

definition KeLowerIrql :: "KIRQL \<Rightarrow> machine \<Rightarrow> machine" where
  "KeLowerIrql newIrql s = s\<lparr>irql := newIrql\<rparr>"

definition disable :: "machine \<Rightarrow> machine" where
  "disable s = s\<lparr>interruptsEnabled := False\<rparr>"

definition enable :: "machine \<Rightarrow> machine" where
  "enable s = s\<lparr>interruptsEnabled := True\<rparr>"

subsection \<open>\<^verbatim>\<open>RdtscTiming\<close>\<close>

text \<open>The \<^verbatim>\<open>for\<close> loop of lines 51 to 59; \<open>i\<close> is the C \<^verbatim>\<open>int\<close>.\<close>

function RdtscLoop :: "int \<Rightarrow> DWORD64 \<Rightarrow> machine \<Rightarrow> DWORD64 \<times> machine" where
  "RdtscLoop i tot s =
     (if i < 25000 then
        (case rdtsc s of (start, s1) \<Rightarrow>
           (case rdtsc (cpuid 0 s1) of (stop, s2) \<Rightarrow>
              RdtscLoop (i + 1) (tot + (stop - start)) s2))
      else (tot, s))"
  by pat_completeness auto
termination
  by (relation "measure (\<lambda>(i, tot, s). nat (25000 - i))") auto

text \<open>
  Lines 68 to 70. \<^verbatim>\<open>100000 * total\<close> is a \<^verbatim>\<open>DWORD64\<close> product and wraps; the division
  is unsigned and faults on a zero divisor.
\<close>

definition RdtscClassify :: "DWORD64 \<Rightarrow> DWORD64 \<Rightarrow> machine \<Rightarrow> fault + machine" where
  "RdtscClassify tot calibration s =
     (if calibration = 0 then Inl DivideError
      else
        (let calculated = 100000 * tot div calibration
         in Inr (s\<lparr>testResults := (testResults s)
              \<lparr>RdtscCalculated := calculated, RdtscFail := (calculated > 200)\<rparr>\<rparr>)))"

definition RdtscTiming :: "machine \<Rightarrow> fault + machine" where
  "RdtscTiming s =
     (case rdtsc s of (calibration0, s1) \<Rightarrow>
        (case rdtsc (KeDelayExecutionThread (- 10000000) s1) of (now, s2) \<Rightarrow>
           (let calibration = now - calibration0
            in (case RdtscLoop 0 0 s2 of (tot, s3) \<Rightarrow>
                  RdtscClassify tot calibration s3))))"

subsection \<open>\<^verbatim>\<open>TimestampTiming\<close>\<close>

function TimestampLoop :: "int \<Rightarrow> DWORD64 \<Rightarrow> machine \<Rightarrow> DWORD64 \<times> machine" where
  "TimestampLoop i tot s =
     (if i < 25000 then
        (case readmsr IA32_TIME_STAMP_COUNTER s of (start, s1) \<Rightarrow>
           (case readmsr IA32_TIME_STAMP_COUNTER (cpuid 0 s1) of (stop, s2) \<Rightarrow>
              TimestampLoop (i + 1) (tot + (stop - start)) s2))
      else (tot, s))"
  by pat_completeness auto
termination
  by (relation "measure (\<lambda>(i, tot, s). nat (25000 - i))") auto

text \<open>Lines 125 to 127.\<close>

definition TimestampClassify :: "DWORD64 \<Rightarrow> DWORD64 \<Rightarrow> machine \<Rightarrow> fault + machine" where
  "TimestampClassify tot calibration s =
     (if calibration = 0 then Inl DivideError
      else
        (let calculated = 100000 * tot div calibration
         in Inr (s\<lparr>testResults := (testResults s)
              \<lparr>TimestampCalculated := calculated, TimestampFail := (calculated > 300)\<rparr>\<rparr>)))"

definition TimestampTiming :: "machine \<Rightarrow> fault + machine" where
  "TimestampTiming s =
     (case readmsr IA32_TIME_STAMP_COUNTER s of (calibration0, s1) \<Rightarrow>
        (case readmsr IA32_TIME_STAMP_COUNTER (KeDelayExecutionThread (- 10000000) s1) of
           (stop, s2) \<Rightarrow>
             (let calibration = stop - calibration0
              in (case TimestampLoop 0 0 s2 of (tot, s3) \<Rightarrow>
                    TimestampClassify tot calibration s3))))"

subsection \<open>\<^verbatim>\<open>AperfTiming\<close>\<close>

text \<open>
  Lines 165 to 167, on the values of the locals \<^verbatim>\<open>start\<close> and \<^verbatim>\<open>end\<close> (both already
  shifted).
\<close>

definition AperfClassify :: "DWORD64 \<Rightarrow> DWORD64 \<Rightarrow> machine \<Rightarrow> machine" where
  "AperfClassify start stop s =
     (let calculated = stop - start
      in s\<lparr>testResults := (testResults s)
           \<lparr>AperfCalculated := calculated, AperfFail := (calculated < 10000)\<rparr>\<rparr>)"

definition AperfTiming :: "machine \<Rightarrow> machine" where
  "AperfTiming s =
     (case readmsr IA32_APERF_MSR s of (r0, s1) \<Rightarrow>
        (let start = push_bit 32 r0
         in (case readmsr IA32_APERF_MSR (cpuid 1 s1) of (r1, s2) \<Rightarrow>
               (let stop = push_bit 32 r1
                in AperfClassify start stop s2))))"

subsection \<open>\<^verbatim>\<open>PerformTests\<close>, \<^verbatim>\<open>PrintResults\<close>, \<^verbatim>\<open>DriverEntry\<close>\<close>

text \<open>
  \<^verbatim>\<open>1ULL << processorNumber.Number\<close> is defined in C for a number below 64, which is
  what a successful lookup returns (a group holds at most 64 processors).
\<close>

definition PerformTests :: "machine \<Rightarrow> fault + machine" where
  "PerformTests s =
     (let numberOfProcessors = KeQueryActiveProcessorCountEx s
      in (case KeGetProcessorNumberFromIndex (numberOfProcessors - 1) s of
            (status, processorNumber) \<Rightarrow>
              if \<not> NT_SUCCESS status then
                Inr (Log ''Failed to get processor number!\<newline>'' [] s)
              else
                (let affinity = \<lparr>ga_Mask = push_bit (unat (pn_Number processorNumber)) 1,
                                 ga_Group = pn_Group processorNumber,
                                 ga_Reserved = [0, 0, 0]\<rparr>
                 in (case KeSetSystemGroupAffinityThread affinity s of
                       (oldAffinity, s1) \<Rightarrow>
                         (case KeRaiseIrql HIGH_LEVEL s1 of
                            (originalIrql, s2) \<Rightarrow>
                              (case RdtscTiming (disable s2) of
                                 Inl f \<Rightarrow> Inl f
                               | Inr s3 \<Rightarrow>
                                   (case TimestampTiming s3 of
                                      Inl f \<Rightarrow> Inl f
                                    | Inr s4 \<Rightarrow>
                                        Inr (KeRevertToUserGroupAffinityThread oldAffinity
                                               (KeLowerIrql originalIrql
                                                  (enable (AperfTiming s4)))))))))))"

definition okfail :: "bool \<Rightarrow> string" where
  "okfail b = (if b then ''fail'' else ''ok'')"

definition PrintResults :: "machine \<Rightarrow> machine" where
  "PrintResults s =
     (let r = testResults s;
          s1 = Log ''RDTSC with CPUID: %llu (%s)\<newline>''
                 [ArgU64 (RdtscCalculated r), ArgStr (okfail (RdtscFail r))] s;
          s2 = Log ''MSR TIMESTAMP with CPUID: %llu (%s)\<newline>''
                 [ArgU64 (TimestampCalculated r), ArgStr (okfail (TimestampFail r))] s1
      in Log ''MSR APERF with CPUID: %llu (%s)\<newline>''
           [ArgU64 (AperfCalculated r), ArgStr (okfail (AperfFail r))] s2)"

definition DriverEntry :: "machine \<Rightarrow> fault + (NTSTATUS \<times> machine)" where
  "DriverEntry s =
     (let s1 = Log ''Loaded. Build on %s.\<newline>'' [ArgStr (buildDate s)] s
      in (case PerformTests s1 of
            Inl f \<Rightarrow> Inl f
          | Inr s2 \<Rightarrow> Inr (STATUS_SUCCESS, PrintResults s2)))"

subsection \<open>Auxiliary notions for stating the results\<close>

text \<open>
  \<open>deltas f p n\<close> is what \<open>n\<close> rounds of the measuring loop add to \<^verbatim>\<open>total\<close> when the
  next counter read is the \<open>p\<close>-th: each round reads twice and adds the difference.
\<close>

primrec deltas :: "(nat \<Rightarrow> DWORD64) \<Rightarrow> nat \<Rightarrow> nat \<Rightarrow> DWORD64" where
  "deltas f p 0 = 0"
| "deltas f p (Suc n) = (f (Suc p) - f p) + deltas f (p + 2) n"

text \<open>
  A machine at driver load, for concrete runs: \<^verbatim>\<open>testResults\<close> zero-initialised as a C
  global is, four processors, nothing read or logged yet. Its parameters are the counter
  values, the interrupt flag and the status of the processor lookup.
\<close>

definition testMachine :: "(nat \<Rightarrow> DWORD64) \<Rightarrow> bool \<Rightarrow> NTSTATUS \<Rightarrow> machine" where
  "testMachine rd ie st =
     \<lparr>testResults = \<lparr>RdtscCalculated = 0, RdtscFail = False,
                      TimestampCalculated = 0, TimestampFail = False,
                      AperfCalculated = 0, AperfFail = False\<rparr>,
      readings = rd,
      reads = 0,
      trail = [],
      activeProcessorCount = 4,
      processorLookup = (\<lambda>i. (st, \<lparr>pn_Group = 0, pn_Number = ucast i, pn_Reserved = 0\<rparr>)),
      threadAffinity = \<lparr>ga_Mask = 15, ga_Group = 0, ga_Reserved = [0, 0, 0]\<rparr>,
      irql = PASSIVE_LEVEL,
      interruptsEnabled = ie,
      dbgLog = [],
      buildDate = ''Oct 30 2026''\<rparr>"

text \<open>
  Counter values for the boundary runs: the calibration reads give a delta of
  1,000,000, the first round of the loop costs \<open>c\<close> ticks and every later round none.
\<close>

definition boundaryReadings :: "DWORD64 \<Rightarrow> nat \<Rightarrow> DWORD64" where
  "boundaryReadings c n = (if n = 1 then 1000000 else if n = 3 then c else 0)"

text \<open>Scenario B: the activity counter reads 0 before and 15000 after.\<close>

definition scenarioBReadings :: "nat \<Rightarrow> DWORD64" where
  "scenarioBReadings n = (if n = 0 then 0 else 15000)"

text \<open>A counter that does not advance: every read returns 7.\<close>

definition stuckReadings :: "nat \<Rightarrow> DWORD64" where
  "stuckReadings n = 7"

text \<open>The value \<^verbatim>\<open>PerformTests\<close> gets for its local \<^verbatim>\<open>status\<close> (line 179).\<close>

definition lookupStatus :: "machine \<Rightarrow> NTSTATUS" where
  "lookupStatus s = fst (KeGetProcessorNumberFromIndex (KeQueryActiveProcessorCountEx s - 1) s)"

declare RdtscLoop.simps [simp del] TimestampLoop.simps [simp del]

section \<open>The probes in closed form\<close>

lemma nat_step: "i < 25000 \<Longrightarrow> nat (25000 - i) = Suc (nat (25000 - (i + 1)))"
  by simp

lemma RdtscLoop_runs:
  "i \<le> 25000 \<Longrightarrow>
   RdtscLoop i tot s =
     (tot + deltas (readings s) (reads s) (nat (25000 - i)),
      s\<lparr>reads := reads s + 2 * nat (25000 - i),
        trail := trail s @ concat (replicate (nat (25000 - i)) [EvRdtsc, EvCpuid 0, EvRdtsc])\<rparr>)"
proof (induction i tot s rule: RdtscLoop.induct)
  case (1 i tot s)
  show ?case
  proof (cases "i < 25000")
    case True
    let ?s2 = "snd (rdtsc (cpuid 0 (snd (rdtsc s))))"
    have ih: "RdtscLoop (i + 1) (tot + (readings s (Suc (reads s)) - readings s (reads s))) ?s2 =
      (tot + (readings s (Suc (reads s)) - readings s (reads s)) + deltas (readings ?s2) (reads ?s2) (nat (25000 - (i + 1))),
      ?s2\<lparr>reads := reads ?s2 + 2 * nat (25000 - (i + 1)),
        trail := trail ?s2 @ concat (replicate (nat (25000 - (i + 1))) [EvRdtsc, EvCpuid 0, EvRdtsc])\<rparr>)"
      using "1.IH" [OF True, of "readings s (reads s)" "snd (rdtsc s)" "readings s (Suc (reads s))" ?s2] True
      by (simp add: rdtsc_def cpuid_def)
    show ?thesis
      apply (subst RdtscLoop.simps)
      using True ih
      apply (simp add: rdtsc_def cpuid_def nat_step [OF True] add.assoc)
      done
  next
    case False
    with "1.prems" have "i = 25000" by simp
    then show ?thesis by (subst RdtscLoop.simps) simp
  qed
qed

lemma TimestampLoop_runs:
  "i \<le> 25000 \<Longrightarrow>
   TimestampLoop i tot s =
     (tot + deltas (readings s) (reads s) (nat (25000 - i)),
      s\<lparr>reads := reads s + 2 * nat (25000 - i),
        trail := trail s @ concat (replicate (nat (25000 - i))
          [EvReadMsr IA32_TIME_STAMP_COUNTER, EvCpuid 0, EvReadMsr IA32_TIME_STAMP_COUNTER])\<rparr>)"
proof (induction i tot s rule: TimestampLoop.induct)
  case (1 i tot s)
  show ?case
  proof (cases "i < 25000")
    case True
    let ?m = "IA32_TIME_STAMP_COUNTER"
    let ?s2 = "snd (readmsr ?m (cpuid 0 (snd (readmsr ?m s))))"
    have ih: "TimestampLoop (i + 1) (tot + (readings s (Suc (reads s)) - readings s (reads s))) ?s2 =
      (tot + (readings s (Suc (reads s)) - readings s (reads s)) + deltas (readings ?s2) (reads ?s2) (nat (25000 - (i + 1))),
      ?s2\<lparr>reads := reads ?s2 + 2 * nat (25000 - (i + 1)),
        trail := trail ?s2 @ concat (replicate (nat (25000 - (i + 1))) [EvReadMsr ?m, EvCpuid 0, EvReadMsr ?m])\<rparr>)"
      using "1.IH" [OF True, of "readings s (reads s)" "snd (readmsr ?m s)" "readings s (Suc (reads s))" ?s2] True
      by (simp add: readmsr_def cpuid_def)
    show ?thesis
      apply (subst TimestampLoop.simps)
      using True ih
      apply (simp add: readmsr_def cpuid_def nat_step [OF True] add.assoc)
      done
  next
    case False
    with "1.prems" have "i = 25000" by simp
    then show ?thesis by (subst TimestampLoop.simps) simp
  qed
qed

lemma RdtscTiming_runs:
  "RdtscTiming s =
     RdtscClassify (deltas (readings s) (reads s + 2) 25000)
       (readings s (Suc (reads s)) - readings s (reads s))
       (s\<lparr>reads := reads s + 50002,
          trail := trail s @ EvRdtsc # EvDelay (- 10000000) # EvRdtsc #
            concat (replicate 25000 [EvRdtsc, EvCpuid 0, EvRdtsc])\<rparr>)"
  by (simp add: RdtscTiming_def rdtsc_def KeDelayExecutionThread_def RdtscLoop_runs add.commute)

lemma TimestampTiming_runs:
  "TimestampTiming s =
     TimestampClassify (deltas (readings s) (reads s + 2) 25000)
       (readings s (Suc (reads s)) - readings s (reads s))
       (s\<lparr>reads := reads s + 50002,
          trail := trail s @ EvReadMsr IA32_TIME_STAMP_COUNTER # EvDelay (- 10000000) #
            EvReadMsr IA32_TIME_STAMP_COUNTER #
            concat (replicate 25000
              [EvReadMsr IA32_TIME_STAMP_COUNTER, EvCpuid 0, EvReadMsr IA32_TIME_STAMP_COUNTER])\<rparr>)"
  by (simp add: TimestampTiming_def readmsr_def KeDelayExecutionThread_def TimestampLoop_runs add.commute)

lemma AperfTiming_runs:
  "AperfTiming s =
     AperfClassify (push_bit 32 (readings s (reads s))) (push_bit 32 (readings s (Suc (reads s))))
       (s\<lparr>reads := reads s + 2,
          trail := trail s @ [EvReadMsr IA32_APERF_MSR, EvCpuid 1, EvReadMsr IA32_APERF_MSR]\<rparr>)"
  by (simp add: AperfTiming_def readmsr_def cpuid_def)

lemma RdtscClassify_ok:
  "calibration \<noteq> 0 \<Longrightarrow>
   RdtscClassify tot calibration s =
     Inr (s\<lparr>testResults := (testResults s)
            \<lparr>RdtscCalculated := 100000 * tot div calibration,
             RdtscFail := (200 < 100000 * tot div calibration)\<rparr>\<rparr>)"
  by (simp add: RdtscClassify_def Let_def)

lemma TimestampClassify_ok:
  "calibration \<noteq> 0 \<Longrightarrow>
   TimestampClassify tot calibration s =
     Inr (s\<lparr>testResults := (testResults s)
            \<lparr>TimestampCalculated := 100000 * tot div calibration,
             TimestampFail := (300 < 100000 * tot div calibration)\<rparr>\<rparr>)"
  by (simp add: TimestampClassify_def Let_def)

lemma unat_ratio:
  "unat (100000 * tot div calibration :: DWORD64) =
     (100000 * unat tot) mod 2 ^ 64 div unat calibration"
  by (simp add: unat_div unat_word_ariths)

lemma shifted_diff:
  "push_bit 32 (b :: DWORD64) - push_bit 32 a = push_bit 32 (b - a)"
  by (simp add: push_bit_eq_mult left_diff_distrib)

lemma take_bit_shifted: "take_bit 32 (push_bit 32 (x :: DWORD64)) = 0"
  by (simp add: take_bit_push_bit)

lemma unat_shifted:
  "unat (push_bit 32 (x :: DWORD64)) = 2 ^ 32 * take_bit 32 (unat x)"
proof -
  have "unat (push_bit 32 x) = take_bit 64 (push_bit 32 (unat x))"
    by (simp add: unsigned_push_bit_eq del: push_bit_of_nat)
  also have "\<dots> = push_bit 32 (take_bit 32 (unat x))"
    by (simp add: take_bit_push_bit)
  also have "\<dots> = 2 ^ 32 * take_bit 32 (unat x)"
    by (simp add: push_bit_eq_mult)
  finally show ?thesis .
qed

lemma dvd_unat_shifted: "(2 :: nat) ^ 32 dvd unat (push_bit 32 (x :: DWORD64))"
  by (simp add: unat_shifted)

lemma shifted_small_iff: "(push_bit 32 (x :: DWORD64) < 10000) = (push_bit 32 x = 0)"
proof -
  let ?k = "take_bit 32 (unat x)"
  have "(push_bit 32 x < 10000) = (unat (push_bit 32 x) < 10000)"
    by (simp add: word_less_nat_alt)
  also have "\<dots> = (?k = 0)"
    unfolding unat_shifted by (cases ?k) simp_all
  also have "\<dots> = (unat (push_bit 32 x) = 0)"
    unfolding unat_shifted by simp
  also have "\<dots> = (push_bit 32 x = 0)"
    by (simp add: unat_eq_0)
  finally show ?thesis .
qed

lemma deltas_flat: "(\<And>k. p \<le> k \<Longrightarrow> f k = c) \<Longrightarrow> deltas f p n = 0"
  by (induction n arbitrary: p) simp_all

lemma deltas_boundary: "deltas (boundaryReadings c) (Suc (Suc 0)) 25000 = c"
proof -
  let ?f = "boundaryReadings c"
  have flat: "deltas ?f (Suc (Suc 0) + 2) 24999 = 0"
    by (rule deltas_flat [where c = 0]) (simp add: boundaryReadings_def)
  have "deltas ?f (Suc (Suc 0)) (Suc 24999) =
      (?f (Suc (Suc (Suc 0))) - ?f (Suc (Suc 0))) + deltas ?f (Suc (Suc 0) + 2) 24999"
    by (simp only: deltas.simps)
  also have "\<dots> = c"
    unfolding flat by (simp add: boundaryReadings_def)
  finally show ?thesis by simp
qed

lemma RdtscTiming_boundary:
  "RdtscTiming (testMachine (boundaryReadings 2000) ie st) =
     RdtscClassify 2000 1000000
       ((testMachine (boundaryReadings 2000) ie st)\<lparr>reads := 50002,
          trail := EvRdtsc # EvDelay (- 10000000) # EvRdtsc #
            concat (replicate 25000 [EvRdtsc, EvCpuid 0, EvRdtsc])\<rparr>)"
  by (simp add: RdtscTiming_runs testMachine_def deltas_boundary) (simp add: boundaryReadings_def)

lemma TimestampTiming_boundary:
  "TimestampTiming (testMachine (boundaryReadings 3000) ie st) =
     TimestampClassify 3000 1000000
       ((testMachine (boundaryReadings 3000) ie st)\<lparr>reads := 50002,
          trail := EvReadMsr IA32_TIME_STAMP_COUNTER # EvDelay (- 10000000) #
            EvReadMsr IA32_TIME_STAMP_COUNTER #
            concat (replicate 25000
              [EvReadMsr IA32_TIME_STAMP_COUNTER, EvCpuid 0, EvReadMsr IA32_TIME_STAMP_COUNTER])\<rparr>)"
  by (simp add: TimestampTiming_runs testMachine_def deltas_boundary) (simp add: boundaryReadings_def)

lemma RdtscTiming_strict:
  "RdtscTiming s = Inr s' \<Longrightarrow>
     RdtscFail (testResults s') = (200 < RdtscCalculated (testResults s'))"
  by (auto simp: RdtscTiming_runs RdtscClassify_def Let_def split: if_splits)

lemma TimestampTiming_strict:
  "TimestampTiming s = Inr s' \<Longrightarrow>
     TimestampFail (testResults s') = (300 < TimestampCalculated (testResults s'))"
  by (auto simp: TimestampTiming_runs TimestampClassify_def Let_def split: if_splits)

lemma AperfTiming_calculated:
  "AperfCalculated (testResults (AperfTiming s)) =
     push_bit 32 (readings s (Suc (reads s)) - readings s (reads s))"
  by (simp add: AperfTiming_runs AperfClassify_def Let_def shifted_diff)

lemma AperfTiming_fail:
  "AperfFail (testResults (AperfTiming s)) =
     (AperfCalculated (testResults (AperfTiming s)) < 10000)"
  by (simp add: AperfTiming_runs AperfClassify_def Let_def)

lemma AperfTiming_not_small:
  "0 < c \<Longrightarrow> c < 2 ^ 32 \<Longrightarrow> AperfCalculated (testResults (AperfTiming s)) \<noteq> (c :: DWORD64)"
proof
  assume c: "0 < c" "c < 2 ^ 32" and e: "AperfCalculated (testResults (AperfTiming s)) = c"
  from e have "take_bit 32 c = 0"
    unfolding AperfTiming_calculated using take_bit_shifted by metis
  moreover from c(2) have "take_bit 32 c = c"
    using less_mask_eq [of c 32] by (simp add: take_bit_eq_mask)
  ultimately show False using c(1) by simp
qed

subsection \<open>The whole run\<close>

lemma PerformTests_abort:
  "\<not> NT_SUCCESS (lookupStatus s) \<Longrightarrow>
   PerformTests s = Inr (s\<lparr>dbgLog := dbgLog s @
     [(''[vmcheck] Failed to get processor number!\<newline>'', [])]\<rparr>)"
  by (simp add: PerformTests_def lookupStatus_def Let_def split_beta Log_def DbgPrintEx_def)

lemma RdtscTiming_frame:
  "RdtscTiming s = Inr s' \<Longrightarrow>
   threadAffinity s' = threadAffinity s \<and> irql s' = irql s
   \<and> interruptsEnabled s' = interruptsEnabled s \<and> dbgLog s' = dbgLog s
   \<and> readings s' = readings s \<and> reads s' = reads s + 50002"
  by (auto simp: RdtscTiming_runs RdtscClassify_def Let_def split: if_splits)

lemma TimestampTiming_frame:
  "TimestampTiming s = Inr s' \<Longrightarrow>
   threadAffinity s' = threadAffinity s \<and> irql s' = irql s
   \<and> interruptsEnabled s' = interruptsEnabled s \<and> dbgLog s' = dbgLog s
   \<and> readings s' = readings s \<and> reads s' = reads s + 50002"
  by (auto simp: TimestampTiming_runs TimestampClassify_def Let_def split: if_splits)

lemma AperfTiming_frame:
  "threadAffinity (AperfTiming s) = threadAffinity s \<and> irql (AperfTiming s) = irql s
   \<and> interruptsEnabled (AperfTiming s) = interruptsEnabled s
   \<and> dbgLog (AperfTiming s) = dbgLog s
   \<and> readings (AperfTiming s) = readings s \<and> reads (AperfTiming s) = reads s + 2"
  by (simp add: AperfTiming_runs AperfClassify_def Let_def)

lemma PerformTests_run:
  assumes "NT_SUCCESS (lookupStatus s)"
  shows "PerformTests s =
     (case RdtscTiming (s\<lparr>threadAffinity :=
              \<lparr>ga_Mask = push_bit (unat (pn_Number (snd (KeGetProcessorNumberFromIndex
                    (KeQueryActiveProcessorCountEx s - 1) s)))) 1,
               ga_Group = pn_Group (snd (KeGetProcessorNumberFromIndex
                    (KeQueryActiveProcessorCountEx s - 1) s)),
               ga_Reserved = [0, 0, 0]\<rparr>,
            irql := HIGH_LEVEL, interruptsEnabled := False\<rparr>) of
        Inl f \<Rightarrow> Inl f
      | Inr s3 \<Rightarrow>
          (case TimestampTiming s3 of
             Inl f \<Rightarrow> Inl f
           | Inr s4 \<Rightarrow>
               Inr ((AperfTiming s4)\<lparr>interruptsEnabled := True, irql := irql s,
                      threadAffinity := threadAffinity s\<rparr>)))"
  using assms
  by (simp add: PerformTests_def lookupStatus_def Let_def split_beta
      KeSetSystemGroupAffinityThread_def KeRaiseIrql_def disable_def enable_def
      KeLowerIrql_def KeRevertToUserGroupAffinityThread_def cong: sum.case_cong)

lemma PerformTests_completed:
  assumes "NT_SUCCESS (lookupStatus s)" and "PerformTests s = Inr s'"
  shows "threadAffinity s' = threadAffinity s \<and> irql s' = irql s
   \<and> interruptsEnabled s' \<and> dbgLog s' = dbgLog s \<and> reads s' = reads s + 100006"
proof -
  let ?s0 = "s\<lparr>threadAffinity :=
              \<lparr>ga_Mask = push_bit (unat (pn_Number (snd (KeGetProcessorNumberFromIndex
                    (KeQueryActiveProcessorCountEx s - 1) s)))) 1,
               ga_Group = pn_Group (snd (KeGetProcessorNumberFromIndex
                    (KeQueryActiveProcessorCountEx s - 1) s)),
               ga_Reserved = [0, 0, 0]\<rparr>,
            irql := HIGH_LEVEL, interruptsEnabled := False\<rparr>"
  from assms obtain s3 s4 where
    r: "RdtscTiming ?s0 = Inr s3" and t: "TimestampTiming s3 = Inr s4"
    and e: "s' = (AperfTiming s4)\<lparr>interruptsEnabled := True, irql := irql s,
                      threadAffinity := threadAffinity s\<rparr>"
    by (auto simp: PerformTests_run split: sum.splits)
  from RdtscTiming_frame [OF r] TimestampTiming_frame [OF t] AperfTiming_frame [of s4] e
  show ?thesis by simp
qed

lemma RdtscTiming_returns:
  "(\<exists>s'. RdtscTiming s = Inr s') = (readings s (Suc (reads s)) \<noteq> readings s (reads s))"
  by (simp add: RdtscTiming_runs RdtscClassify_def Let_def)

lemma TimestampTiming_returns:
  "(\<exists>s'. TimestampTiming s = Inr s') = (readings s (Suc (reads s)) \<noteq> readings s (reads s))"
  by (simp add: TimestampTiming_runs TimestampClassify_def Let_def)

lemma PerformTests_returns:
  assumes "NT_SUCCESS (lookupStatus s)"
    and "readings s (Suc (reads s)) \<noteq> readings s (reads s)"
    and "readings s (Suc (reads s + 50002)) \<noteq> readings s (reads s + 50002)"
  shows "\<exists>s'. PerformTests s = Inr s'"
proof -
  let ?s0 = "s\<lparr>threadAffinity :=
              \<lparr>ga_Mask = push_bit (unat (pn_Number (snd (KeGetProcessorNumberFromIndex
                    (KeQueryActiveProcessorCountEx s - 1) s)))) 1,
               ga_Group = pn_Group (snd (KeGetProcessorNumberFromIndex
                    (KeQueryActiveProcessorCountEx s - 1) s)),
               ga_Reserved = [0, 0, 0]\<rparr>,
            irql := HIGH_LEVEL, interruptsEnabled := False\<rparr>"
  from assms(2) have "\<exists>s3. RdtscTiming ?s0 = Inr s3"
    unfolding RdtscTiming_returns by simp
  then obtain s3 where r: "RdtscTiming ?s0 = Inr s3" ..
  from RdtscTiming_frame [OF r] have "readings s3 = readings s" "reads s3 = reads s + 50002"
    by simp_all
  with assms(3) have "\<exists>s4. TimestampTiming s3 = Inr s4"
    unfolding TimestampTiming_returns by simp
  then obtain s4 where t: "TimestampTiming s3 = Inr s4" ..
  from r t show ?thesis
    by (simp add: PerformTests_run [OF assms(1)])
qed

lemma abort_lookup:
  "\<not> NT_SUCCESS (lookupStatus (testMachine rd ie STATUS_INVALID_PARAMETER))"
  by (simp add: lookupStatus_def KeGetProcessorNumberFromIndex_def testMachine_def
      NT_SUCCESS_def STATUS_INVALID_PARAMETER_def)

lemma good_lookup:
  "NT_SUCCESS (lookupStatus (testMachine rd ie STATUS_SUCCESS))"
  by (simp add: lookupStatus_def KeGetProcessorNumberFromIndex_def testMachine_def
      NT_SUCCESS_def STATUS_SUCCESS_def)

lemma lookupStatus_Log [simp]: "lookupStatus (Log x args s) = lookupStatus s"
  by (simp add: lookupStatus_def Log_def DbgPrintEx_def KeGetProcessorNumberFromIndex_def
      KeQueryActiveProcessorCountEx_def)

lemma Log_appends:
  "Log x args s = s\<lparr>dbgLog := dbgLog s @ [(''[vmcheck] '' @ x, args)]\<rparr>"
  by (simp only: Log_def DbgPrintEx_def)

lemma PrintResults_appends:
  "PrintResults s = s\<lparr>dbgLog := dbgLog s @
     [(''[vmcheck] RDTSC with CPUID: %llu (%s)\<newline>'',
         [ArgU64 (RdtscCalculated (testResults s)),
          ArgStr (if RdtscFail (testResults s) then ''fail'' else ''ok'')]),
      (''[vmcheck] MSR TIMESTAMP with CPUID: %llu (%s)\<newline>'',
         [ArgU64 (TimestampCalculated (testResults s)),
          ArgStr (if TimestampFail (testResults s) then ''fail'' else ''ok'')]),
      (''[vmcheck] MSR APERF with CPUID: %llu (%s)\<newline>'',
         [ArgU64 (AperfCalculated (testResults s)),
          ArgStr (if AperfFail (testResults s) then ''fail'' else ''ok'')])]\<rparr>"
  by (simp add: PrintResults_def Let_def Log_appends okfail_def)

lemma DriverEntry_abort:
  assumes "\<not> NT_SUCCESS (lookupStatus s)"
  shows "DriverEntry s =
       Inr (STATUS_SUCCESS, s\<lparr>dbgLog := dbgLog s @
         [(''[vmcheck] Loaded. Build on %s.\<newline>'', [ArgStr (buildDate s)]),
          (''[vmcheck] Failed to get processor number!\<newline>'', []),
          (''[vmcheck] RDTSC with CPUID: %llu (%s)\<newline>'',
             [ArgU64 (RdtscCalculated (testResults s)),
              ArgStr (if RdtscFail (testResults s) then ''fail'' else ''ok'')]),
          (''[vmcheck] MSR TIMESTAMP with CPUID: %llu (%s)\<newline>'',
             [ArgU64 (TimestampCalculated (testResults s)),
              ArgStr (if TimestampFail (testResults s) then ''fail'' else ''ok'')]),
          (''[vmcheck] MSR APERF with CPUID: %llu (%s)\<newline>'',
             [ArgU64 (AperfCalculated (testResults s)),
              ArgStr (if AperfFail (testResults s) then ''fail'' else ''ok'')])]\<rparr>)"
proof -
  let ?s1 = "Log ''Loaded. Build on %s.\<newline>'' [ArgStr (buildDate s)] s"
  have "\<not> NT_SUCCESS (lookupStatus ?s1)"
    using assms by simp
  then have "DriverEntry s = Inr (STATUS_SUCCESS, PrintResults (?s1\<lparr>dbgLog := dbgLog ?s1 @
        [(''[vmcheck] Failed to get processor number!\<newline>'', [])]\<rparr>))"
    by (simp add: DriverEntry_def Let_def PerformTests_abort)
  then show ?thesis
    by (simp add: PrintResults_appends Log_appends)
qed

lemma counting_run:
  "\<exists>s'. PerformTests (testMachine of_nat ie STATUS_SUCCESS) = Inr s'"
proof (rule PerformTests_returns [OF good_lookup])
  let ?m = "testMachine of_nat ie STATUS_SUCCESS"
  have r: "readings ?m = of_nat" "reads ?m = 0"
    by (simp_all add: testMachine_def)
  show "readings ?m (Suc (reads ?m)) \<noteq> readings ?m (reads ?m)"
    unfolding r by simp
  show "readings ?m (Suc (reads ?m + 50002)) \<noteq> readings ?m (reads ?m + 50002)"
    unfolding r by simp
qed

lemma DriverEntry_cases:
  "DriverEntry s =
     (case PerformTests (Log ''Loaded. Build on %s.\<newline>'' [ArgStr (buildDate s)] s) of
        Inl f \<Rightarrow> Inl f
      | Inr s2 \<Rightarrow> Inr (STATUS_SUCCESS, PrintResults s2))"
  by (simp add: DriverEntry_def Let_def)

lemma readings_Log [simp]: "readings (Log x args s) = readings s"
  by (simp add: Log_appends)

lemma reads_Log [simp]: "reads (Log x args s) = reads s"
  by (simp add: Log_appends)

lemma RdtscTiming_faults:
  "(RdtscTiming s = Inl DivideError) = (readings s (Suc (reads s)) = readings s (reads s))"
  by (simp add: RdtscTiming_runs RdtscClassify_def Let_def)

lemma TimestampTiming_faults:
  "(TimestampTiming s = Inl DivideError) = (readings s (Suc (reads s)) = readings s (reads s))"
  by (simp add: TimestampTiming_runs TimestampClassify_def Let_def)

lemma PerformTests_faults:
  "(PerformTests s = Inl DivideError) =
     (NT_SUCCESS (lookupStatus s)
      \<and> (readings s (Suc (reads s)) = readings s (reads s)
           \<or> readings s (Suc (reads s + 50002)) = readings s (reads s + 50002)))"
proof (cases "NT_SUCCESS (lookupStatus s)")
  case False
  then show ?thesis by (simp add: PerformTests_abort)
next
  case ok: True
  let ?s0 = "s\<lparr>threadAffinity :=
              \<lparr>ga_Mask = push_bit (unat (pn_Number (snd (KeGetProcessorNumberFromIndex
                    (KeQueryActiveProcessorCountEx s - 1) s)))) 1,
               ga_Group = pn_Group (snd (KeGetProcessorNumberFromIndex
                    (KeQueryActiveProcessorCountEx s - 1) s)),
               ga_Reserved = [0, 0, 0]\<rparr>,
            irql := HIGH_LEVEL, interruptsEnabled := False\<rparr>"
  show ?thesis
  proof (cases "readings s (Suc (reads s)) = readings s (reads s)")
    case True
    then have "RdtscTiming ?s0 = Inl DivideError"
      by (simp add: RdtscTiming_faults)
    then show ?thesis using ok True by (simp add: PerformTests_run)
  next
    case first: False
    then have "\<exists>s3. RdtscTiming ?s0 = Inr s3"
      unfolding RdtscTiming_returns by simp
    then obtain s3 where r: "RdtscTiming ?s0 = Inr s3" ..
    from RdtscTiming_frame [OF r]
    have f: "readings s3 = readings s" "reads s3 = reads s + 50002"
      by simp_all
    show ?thesis
    proof (cases "readings s (Suc (reads s + 50002)) = readings s (reads s + 50002)")
      case True
      with f have "TimestampTiming s3 = Inl DivideError"
        by (simp add: TimestampTiming_faults)
      with r show ?thesis using ok True by (simp add: PerformTests_run)
    next
      case False
      with f have "\<exists>s4. TimestampTiming s3 = Inr s4"
        unfolding TimestampTiming_returns by simp
      then obtain s4 where "TimestampTiming s3 = Inr s4" ..
      with r show ?thesis using ok first False by (simp add: PerformTests_run)
    qed
  qed
qed

lemma DriverEntry_faults:
  "(DriverEntry s = Inl DivideError) =
     (NT_SUCCESS (lookupStatus s)
      \<and> (readings s (Suc (reads s)) = readings s (reads s)
           \<or> readings s (Suc (reads s + 50002)) = readings s (reads s + 50002)))"
proof -
  let ?s1 = "Log ''Loaded. Build on %s.\<newline>'' [ArgStr (buildDate s)] s"
  have "(DriverEntry s = Inl DivideError) = (PerformTests ?s1 = Inl DivideError)"
    by (simp add: DriverEntry_cases split: sum.splits)
  then show ?thesis by (simp add: PerformTests_faults)
qed

section \<open>The classification arithmetic\<close>

text \<open>
  Claim C1. For the two ratio probes the classification step is a function of the
  accumulated total and the calibration delta alone: with a calibration other than zero
  it returns, the stored number is \<open>(100000 * total) mod 2^64 div calibration\<close> (the
  product and the quotient of unsigned 64-bit arithmetic), the flag is the comparison of
  that number with the threshold, a second run on the state the first one left gives
  that same state, and a run from any other state stores the same number and flag.
\<close>

theorem ratio_classification_pure:
  assumes "calibration \<noteq> 0"
  shows "(\<exists>s'. RdtscClassify tot calibration s = Inr s'
            \<and> unat (RdtscCalculated (testResults s')) =
                (100000 * unat tot) mod 2 ^ 64 div unat calibration
            \<and> RdtscFail (testResults s') = (200 < RdtscCalculated (testResults s'))
            \<and> RdtscClassify tot calibration s' = Inr s'
            \<and> (\<forall>t. \<exists>t'. RdtscClassify tot calibration t = Inr t'
                  \<and> RdtscCalculated (testResults t') = RdtscCalculated (testResults s')
                  \<and> RdtscFail (testResults t') = RdtscFail (testResults s')))
       \<and> (\<exists>s'. TimestampClassify tot calibration s = Inr s'
            \<and> unat (TimestampCalculated (testResults s')) =
                (100000 * unat tot) mod 2 ^ 64 div unat calibration
            \<and> TimestampFail (testResults s') = (300 < TimestampCalculated (testResults s'))
            \<and> TimestampClassify tot calibration s' = Inr s'
            \<and> (\<forall>t. \<exists>t'. TimestampClassify tot calibration t = Inr t'
                  \<and> TimestampCalculated (testResults t') = TimestampCalculated (testResults s')
                  \<and> TimestampFail (testResults t') = TimestampFail (testResults s')))"
proof (intro conjI)
  let ?r = "100000 * tot div calibration"
  let ?s1 = "s\<lparr>testResults := (testResults s)\<lparr>RdtscCalculated := ?r, RdtscFail := (200 < ?r)\<rparr>\<rparr>"
  let ?s2 = "s\<lparr>testResults := (testResults s)\<lparr>TimestampCalculated := ?r, TimestampFail := (300 < ?r)\<rparr>\<rparr>"
  show "\<exists>s'. RdtscClassify tot calibration s = Inr s'
            \<and> unat (RdtscCalculated (testResults s')) =
                (100000 * unat tot) mod 2 ^ 64 div unat calibration
            \<and> RdtscFail (testResults s') = (200 < RdtscCalculated (testResults s'))
            \<and> RdtscClassify tot calibration s' = Inr s'
            \<and> (\<forall>t. \<exists>t'. RdtscClassify tot calibration t = Inr t'
                  \<and> RdtscCalculated (testResults t') = RdtscCalculated (testResults s')
                  \<and> RdtscFail (testResults t') = RdtscFail (testResults s'))"
    using assms by (intro exI [of _ ?s1]) (simp add: RdtscClassify_ok unat_ratio)
  show "\<exists>s'. TimestampClassify tot calibration s = Inr s'
            \<and> unat (TimestampCalculated (testResults s')) =
                (100000 * unat tot) mod 2 ^ 64 div unat calibration
            \<and> TimestampFail (testResults s') = (300 < TimestampCalculated (testResults s'))
            \<and> TimestampClassify tot calibration s' = Inr s'
            \<and> (\<forall>t. \<exists>t'. TimestampClassify tot calibration t = Inr t'
                  \<and> TimestampCalculated (testResults t') = TimestampCalculated (testResults s')
                  \<and> TimestampFail (testResults t') = TimestampFail (testResults s'))"
    using assms by (intro exI [of _ ?s2]) (simp add: TimestampClassify_ok unat_ratio)
qed

theorem ratio_classification_pure_witness:
  "(10000000 :: DWORD64) \<noteq> 0
   \<and> (\<exists>s'. RdtscClassify 1250000 10000000 (testMachine of_nat True STATUS_SUCCESS) = Inr s'
         \<and> unat (RdtscCalculated (testResults s')) = 12500
         \<and> RdtscFail (testResults s') = (200 < RdtscCalculated (testResults s'))
         \<and> RdtscClassify 1250000 10000000 s' = Inr s')
   \<and> (\<exists>s'. TimestampClassify 1250000 10000000 (testMachine of_nat True STATUS_SUCCESS) = Inr s'
         \<and> unat (TimestampCalculated (testResults s')) = 12500
         \<and> TimestampFail (testResults s') = (300 < TimestampCalculated (testResults s'))
         \<and> TimestampClassify 1250000 10000000 s' = Inr s')"
proof -
  have nz: "(10000000 :: DWORD64) \<noteq> 0" by simp
  have n: "100000 * unat (1250000 :: DWORD64) mod 2 ^ 64 div unat (10000000 :: DWORD64) = 12500"
    by simp
  show ?thesis
    using ratio_classification_pure [OF nz, of 1250000 "testMachine of_nat True STATUS_SUCCESS"] nz
    unfolding n by blast
qed

text \<open>
  Claim C4. The two ratio probes fail on a strict comparison: after \<open>RdtscTiming\<close> the
  flag is \<open>calculated > 200\<close>, after \<open>TimestampTiming\<close> it is \<open>calculated > 300\<close>, so a
  ratio equal to the threshold passes. With a calibration of 1,000,000 a total of 2,000
  gives exactly 200 and a total of 3,000 exactly 300, neither of them a failure.
\<close>

theorem ratio_threshold_strict:
  "(RdtscTiming s = Inr s' \<longrightarrow>
      RdtscFail (testResults s') = (200 < RdtscCalculated (testResults s'))
      \<and> (RdtscCalculated (testResults s') = 200 \<longrightarrow> \<not> RdtscFail (testResults s')))
   \<and> (TimestampTiming s = Inr s'' \<longrightarrow>
      TimestampFail (testResults s'') = (300 < TimestampCalculated (testResults s''))
      \<and> (TimestampCalculated (testResults s'') = 300 \<longrightarrow> \<not> TimestampFail (testResults s'')))
   \<and> (\<exists>t. RdtscClassify 2000 1000000 s = Inr t
          \<and> RdtscCalculated (testResults t) = 200 \<and> \<not> RdtscFail (testResults t))
   \<and> (\<exists>t. TimestampClassify 3000 1000000 s = Inr t
          \<and> TimestampCalculated (testResults t) = 300 \<and> \<not> TimestampFail (testResults t))"
proof (intro conjI impI)
  assume "RdtscTiming s = Inr s'"
  then show "RdtscFail (testResults s') = (200 < RdtscCalculated (testResults s'))"
    by (rule RdtscTiming_strict)
  then show "\<not> RdtscFail (testResults s')" if "RdtscCalculated (testResults s') = 200"
    using that by simp
next
  assume "TimestampTiming s = Inr s''"
  then show "TimestampFail (testResults s'') = (300 < TimestampCalculated (testResults s''))"
    by (rule TimestampTiming_strict)
  then show "\<not> TimestampFail (testResults s'')" if "TimestampCalculated (testResults s'') = 300"
    using that by simp
next
  show "\<exists>t. RdtscClassify 2000 1000000 s = Inr t
          \<and> RdtscCalculated (testResults t) = 200 \<and> \<not> RdtscFail (testResults t)"
    by (simp add: RdtscClassify_def)
  show "\<exists>t. TimestampClassify 3000 1000000 s = Inr t
          \<and> TimestampCalculated (testResults t) = 300 \<and> \<not> TimestampFail (testResults t)"
    by (simp add: TimestampClassify_def)
qed

theorem ratio_threshold_strict_witness:
  "(\<exists>s'. RdtscTiming (testMachine (boundaryReadings 2000) True STATUS_SUCCESS) = Inr s'
        \<and> RdtscCalculated (testResults s') = 200 \<and> \<not> RdtscFail (testResults s'))
   \<and> (\<exists>s''. TimestampTiming (testMachine (boundaryReadings 3000) True STATUS_SUCCESS) = Inr s''
        \<and> TimestampCalculated (testResults s'') = 300 \<and> \<not> TimestampFail (testResults s''))"
proof (intro conjI)
  let ?m = "testMachine (boundaryReadings 2000) True STATUS_SUCCESS"
  obtain x where x: "RdtscTiming ?m = Inr x" "RdtscCalculated (testResults x) = 200"
    by (simp add: RdtscTiming_boundary RdtscClassify_ok)
  from ratio_threshold_strict [of ?m x] x
  have "\<not> RdtscFail (testResults x)" by blast
  with x show "\<exists>s'. RdtscTiming ?m = Inr s'
        \<and> RdtscCalculated (testResults s') = 200 \<and> \<not> RdtscFail (testResults s')"
    by blast
next
  let ?m = "testMachine (boundaryReadings 3000) True STATUS_SUCCESS"
  obtain y where y: "TimestampTiming ?m = Inr y" "TimestampCalculated (testResults y) = 300"
    by (simp add: TimestampTiming_boundary TimestampClassify_ok)
  from ratio_threshold_strict [of ?m _ y] y
  have "\<not> TimestampFail (testResults y)" by blast
  with y show "\<exists>s''. TimestampTiming ?m = Inr s''
        \<and> TimestampCalculated (testResults s'') = 300 \<and> \<not> TimestampFail (testResults s'')"
    by blast
qed

text \<open>
  Claim C5. Neither ratio probe guards its division. The classification step faults
  exactly when the calibration delta is zero; a whole probe faults exactly when its two
  calibration reads return the same value, and returns otherwise; and the fault of the
  first probe is the result of \<open>PerformTests\<close>, which has no handler for it.
\<close>

theorem zero_calibration_faults:
  "(RdtscClassify tot calibration s = Inl DivideError) = (calibration = 0)
   \<and> (TimestampClassify tot calibration s = Inl DivideError) = (calibration = 0)
   \<and> (RdtscTiming s = Inl DivideError) =
        (readings s (Suc (reads s)) - readings s (reads s) = 0)
   \<and> (TimestampTiming s = Inl DivideError) =
        (readings s (Suc (reads s)) - readings s (reads s) = 0)
   \<and> (\<exists>s'. RdtscTiming s = Inr s') =
        (readings s (Suc (reads s)) - readings s (reads s) \<noteq> 0)
   \<and> (\<exists>s'. TimestampTiming s = Inr s') =
        (readings s (Suc (reads s)) - readings s (reads s) \<noteq> 0)
   \<and> (NT_SUCCESS (lookupStatus s)
        \<and> readings s (Suc (reads s)) - readings s (reads s) = 0
        \<longrightarrow> PerformTests s = Inl DivideError)"
proof (intro conjI)
  show "(RdtscClassify tot calibration s = Inl DivideError) = (calibration = 0)"
    by (simp add: RdtscClassify_def Let_def)
  show "(TimestampClassify tot calibration s = Inl DivideError) = (calibration = 0)"
    by (simp add: TimestampClassify_def Let_def)
  show "(RdtscTiming s = Inl DivideError) =
        (readings s (Suc (reads s)) - readings s (reads s) = 0)"
    by (simp add: RdtscTiming_runs RdtscClassify_def Let_def)
  show "(TimestampTiming s = Inl DivideError) =
        (readings s (Suc (reads s)) - readings s (reads s) = 0)"
    by (simp add: TimestampTiming_runs TimestampClassify_def Let_def)
  show "(\<exists>s'. RdtscTiming s = Inr s') =
        (readings s (Suc (reads s)) - readings s (reads s) \<noteq> 0)"
    by (simp add: RdtscTiming_runs RdtscClassify_def Let_def)
  show "(\<exists>s'. TimestampTiming s = Inr s') =
        (readings s (Suc (reads s)) - readings s (reads s) \<noteq> 0)"
    by (simp add: TimestampTiming_runs TimestampClassify_def Let_def)
  show "NT_SUCCESS (lookupStatus s)
        \<and> readings s (Suc (reads s)) - readings s (reads s) = 0
        \<longrightarrow> PerformTests s = Inl DivideError"
    by (simp add: PerformTests_run RdtscTiming_runs RdtscClassify_def)
qed

theorem zero_calibration_faults_witness:
  "NT_SUCCESS (lookupStatus (testMachine (\<lambda>n. 7) True STATUS_SUCCESS))
   \<and> RdtscTiming (testMachine (\<lambda>n. 7) True STATUS_SUCCESS) = Inl DivideError
   \<and> TimestampTiming (testMachine (\<lambda>n. 7) True STATUS_SUCCESS) = Inl DivideError
   \<and> PerformTests (testMachine (\<lambda>n. 7) True STATUS_SUCCESS) = Inl DivideError"
proof -
  let ?m = "testMachine (\<lambda>n. 7) True STATUS_SUCCESS"
  have ok: "NT_SUCCESS (lookupStatus ?m)"
    by (rule good_lookup)
  have flat: "readings ?m (Suc (reads ?m)) - readings ?m (reads ?m) = 0"
    by (simp add: testMachine_def)
  from zero_calibration_faults [of _ _ ?m] ok flat show ?thesis
    by blast
qed

section \<open>The activity probe\<close>

text \<open>
  Claim C2, as stated, at the readings of Scenario B: the counter reads 0 before the
  \<^verbatim>\<open>CPUID\<close> and 15000 after it, and the stored number is 15000 shifted left by 32
  bits, not 15000.
\<close>

theorem aperf_raw_difference_counterexample:
  "readings (testMachine scenarioBReadings True STATUS_SUCCESS)
      (reads (testMachine scenarioBReadings True STATUS_SUCCESS)) = 0
   \<and> readings (testMachine scenarioBReadings True STATUS_SUCCESS)
      (Suc (reads (testMachine scenarioBReadings True STATUS_SUCCESS))) = 15000
   \<and> AperfCalculated (testResults (AperfTiming (testMachine scenarioBReadings True STATUS_SUCCESS)))
      = 64424509440000
   \<and> AperfCalculated (testResults (AperfTiming (testMachine scenarioBReadings True STATUS_SUCCESS)))
      \<noteq> 15000"
  by (simp add: AperfTiming_calculated testMachine_def scenarioBReadings_def)

text \<open>
  Claim C2, amended. \<open>AperfTiming\<close> reads \<^verbatim>\<open>IA32_APERF\<close>, executes one \<^verbatim>\<open>CPUID\<close> with
  leaf 1 and reads \<^verbatim>\<open>IA32_APERF\<close> again; the stored number is the difference of the two
  readings after each has been shifted left by 32 bits, which is the raw difference
  shifted left by 32 bits (modulo \<open>2^64\<close>). No readings make it 15000. With the
  readings 0 and 15000 it is 64424509440000, and the probe is not failed.
\<close>

theorem aperf_shifted_difference:
  "AperfTiming s =
     s\<lparr>testResults := (testResults s)
         \<lparr>AperfCalculated :=
            push_bit 32 (readings s (Suc (reads s))) - push_bit 32 (readings s (reads s)),
          AperfFail :=
            (push_bit 32 (readings s (Suc (reads s))) - push_bit 32 (readings s (reads s))
               < 10000)\<rparr>,
       reads := reads s + 2,
       trail := trail s @ [EvReadMsr IA32_APERF_MSR, EvCpuid 1, EvReadMsr IA32_APERF_MSR]\<rparr>
   \<and> AperfCalculated (testResults (AperfTiming s)) =
       push_bit 32 (readings s (Suc (reads s)) - readings s (reads s))
   \<and> AperfCalculated (testResults (AperfTiming s)) \<noteq> 15000
   \<and> (readings s (reads s) = 0 \<and> readings s (Suc (reads s)) = 15000 \<longrightarrow>
        AperfCalculated (testResults (AperfTiming s)) = 64424509440000
        \<and> \<not> AperfFail (testResults (AperfTiming s)))"
proof (intro conjI impI)
  show "AperfTiming s =
     s\<lparr>testResults := (testResults s)
         \<lparr>AperfCalculated :=
            push_bit 32 (readings s (Suc (reads s))) - push_bit 32 (readings s (reads s)),
          AperfFail :=
            (push_bit 32 (readings s (Suc (reads s))) - push_bit 32 (readings s (reads s))
               < 10000)\<rparr>,
       reads := reads s + 2,
       trail := trail s @ [EvReadMsr IA32_APERF_MSR, EvCpuid 1, EvReadMsr IA32_APERF_MSR]\<rparr>"
    by (simp add: AperfTiming_runs AperfClassify_def Let_def)
  show "AperfCalculated (testResults (AperfTiming s)) =
       push_bit 32 (readings s (Suc (reads s)) - readings s (reads s))"
    by (rule AperfTiming_calculated)
  show "AperfCalculated (testResults (AperfTiming s)) \<noteq> 15000"
    by (rule AperfTiming_not_small) simp_all
next
  assume a: "readings s (reads s) = 0 \<and> readings s (Suc (reads s)) = 15000"
  then show "AperfCalculated (testResults (AperfTiming s)) = 64424509440000"
    by (simp add: AperfTiming_calculated)
  then show "\<not> AperfFail (testResults (AperfTiming s))"
    by (simp add: AperfTiming_fail)
qed

theorem aperf_shifted_difference_witness:
  "readings (testMachine scenarioBReadings True STATUS_SUCCESS)
      (reads (testMachine scenarioBReadings True STATUS_SUCCESS)) = 0
   \<and> readings (testMachine scenarioBReadings True STATUS_SUCCESS)
      (Suc (reads (testMachine scenarioBReadings True STATUS_SUCCESS))) = 15000
   \<and> AperfCalculated (testResults (AperfTiming (testMachine scenarioBReadings True STATUS_SUCCESS)))
      = 64424509440000
   \<and> \<not> AperfFail (testResults (AperfTiming (testMachine scenarioBReadings True STATUS_SUCCESS)))"
proof -
  let ?m = "testMachine scenarioBReadings True STATUS_SUCCESS"
  have r: "readings ?m (reads ?m) = 0 \<and> readings ?m (Suc (reads ?m)) = 15000"
    by (simp add: testMachine_def scenarioBReadings_def)
  with aperf_shifted_difference [of ?m] show ?thesis by blast
qed

text \<open>
  The verdict of the activity probe. The flag is the comparison \<open>calculated < 10000\<close>
  of line 167. The stored number has its low 32 bits clear, so it is never 10000: no run
  of the probe reaches the boundary, and the flag is set exactly when the number is zero.
\<close>

lemma AperfTiming_verdict:
  "AperfFail (testResults (AperfTiming s)) =
     (AperfCalculated (testResults (AperfTiming s)) < 10000)
   \<and> AperfFail (testResults (AperfTiming s)) =
     (AperfCalculated (testResults (AperfTiming s)) = 0)
   \<and> AperfCalculated (testResults (AperfTiming s)) \<noteq> 10000"
proof (intro conjI)
  show "AperfFail (testResults (AperfTiming s)) =
        (AperfCalculated (testResults (AperfTiming s)) < 10000)"
    by (rule AperfTiming_fail)
  show "AperfFail (testResults (AperfTiming s)) =
        (AperfCalculated (testResults (AperfTiming s)) = 0)"
    unfolding AperfTiming_fail AperfTiming_calculated by (rule shifted_small_iff)
  show "AperfCalculated (testResults (AperfTiming s)) \<noteq> 10000"
    by (rule AperfTiming_not_small) simp_all
qed

text \<open>
  Claim C10. The number \<open>AperfTiming\<close> stores is a multiple of \<open>2^32\<close>: its low 32
  bits are zero, whatever the counter returns.
\<close>

theorem aperf_low_bits_zero:
  "take_bit 32 (AperfCalculated (testResults (AperfTiming s))) = 0
   \<and> 2 ^ 32 dvd unat (AperfCalculated (testResults (AperfTiming s)))"
  unfolding AperfTiming_calculated
  by (intro conjI take_bit_shifted dvd_unat_shifted)

section \<open>The run and its environment\<close>

text \<open>
  Claim C6. When the processor lookup fails, \<open>PerformTests\<close> returns the state it was
  given with one more log entry, the failure message: \<^verbatim>\<open>testResults\<close> is unchanged, no
  counter has been read and nothing executed, and the affinity, the IRQL and the
  interrupt flag are what they were.
\<close>

theorem lookup_failure_aborts:
  assumes "\<not> NT_SUCCESS (lookupStatus s)"
  shows "PerformTests s =
      Inr (s\<lparr>dbgLog := dbgLog s @
        [(''[vmcheck] Failed to get processor number!\<newline>'', [])]\<rparr>)
    \<and> (\<exists>s'. PerformTests s = Inr s'
          \<and> testResults s' = testResults s
          \<and> reads s' = reads s \<and> trail s' = trail s
          \<and> threadAffinity s' = threadAffinity s
          \<and> irql s' = irql s
          \<and> interruptsEnabled s' = interruptsEnabled s)"
  using assms by (simp add: PerformTests_abort)

theorem lookup_failure_aborts_witness:
  "\<not> NT_SUCCESS (lookupStatus (testMachine of_nat True STATUS_INVALID_PARAMETER))
   \<and> PerformTests (testMachine of_nat True STATUS_INVALID_PARAMETER) =
      Inr ((testMachine of_nat True STATUS_INVALID_PARAMETER)\<lparr>dbgLog :=
        [(''[vmcheck] Failed to get processor number!\<newline>'', [])]\<rparr>)"
proof -
  have "dbgLog (testMachine of_nat True STATUS_INVALID_PARAMETER) = []"
    by (simp add: testMachine_def)
  with lookup_failure_aborts [OF abort_lookup [of of_nat True]] abort_lookup [of of_nat True]
  show ?thesis by simp
qed

text \<open>
  Claim C7, as stated, on a machine whose lookup fails: \<open>DriverEntry\<close> logs the load
  line and the failure line and then the three result lines, each showing 0 and ok.
\<close>

theorem abort_still_prints_results_counterexample:
  "DriverEntry (testMachine of_nat True STATUS_INVALID_PARAMETER) =
     Inr (STATUS_SUCCESS, (testMachine of_nat True STATUS_INVALID_PARAMETER)\<lparr>dbgLog :=
       [(''[vmcheck] Loaded. Build on %s.\<newline>'', [ArgStr ''Oct 30 2026'']),
        (''[vmcheck] Failed to get processor number!\<newline>'', []),
        (''[vmcheck] RDTSC with CPUID: %llu (%s)\<newline>'', [ArgU64 0, ArgStr ''ok'']),
        (''[vmcheck] MSR TIMESTAMP with CPUID: %llu (%s)\<newline>'', [ArgU64 0, ArgStr ''ok'']),
        (''[vmcheck] MSR APERF with CPUID: %llu (%s)\<newline>'', [ArgU64 0, ArgStr ''ok''])]\<rparr>)"
  using DriverEntry_abort [OF abort_lookup [of of_nat True]]
  by (simp add: testMachine_def)

text \<open>
  Claim C7, amended. On the early-abort path \<open>PerformTests\<close> itself logs exactly one
  line, the failure message, and no result line. \<open>DriverEntry\<close> then calls
  \<open>PrintResults\<close> all the same, so the sink receives the load line, the failure line
  and the three result lines, which show the unchanged \<^verbatim>\<open>testResults\<close>.
\<close>

theorem abort_log_lines:
  assumes "\<not> NT_SUCCESS (lookupStatus s)"
  shows "(\<exists>s'. PerformTests s = Inr s'
            \<and> dbgLog s' = dbgLog s @
                 [(''[vmcheck] Failed to get processor number!\<newline>'', [])])
    \<and> DriverEntry s =
       Inr (STATUS_SUCCESS, s\<lparr>dbgLog := dbgLog s @
         [(''[vmcheck] Loaded. Build on %s.\<newline>'', [ArgStr (buildDate s)]),
          (''[vmcheck] Failed to get processor number!\<newline>'', []),
          (''[vmcheck] RDTSC with CPUID: %llu (%s)\<newline>'',
             [ArgU64 (RdtscCalculated (testResults s)),
              ArgStr (if RdtscFail (testResults s) then ''fail'' else ''ok'')]),
          (''[vmcheck] MSR TIMESTAMP with CPUID: %llu (%s)\<newline>'',
             [ArgU64 (TimestampCalculated (testResults s)),
              ArgStr (if TimestampFail (testResults s) then ''fail'' else ''ok'')]),
          (''[vmcheck] MSR APERF with CPUID: %llu (%s)\<newline>'',
             [ArgU64 (AperfCalculated (testResults s)),
              ArgStr (if AperfFail (testResults s) then ''fail'' else ''ok'')])]\<rparr>)"
proof (intro conjI)
  show "\<exists>s'. PerformTests s = Inr s'
            \<and> dbgLog s' = dbgLog s @
                 [(''[vmcheck] Failed to get processor number!\<newline>'', [])]"
    using assms by (simp add: PerformTests_abort)
  show "DriverEntry s =
       Inr (STATUS_SUCCESS, s\<lparr>dbgLog := dbgLog s @
         [(''[vmcheck] Loaded. Build on %s.\<newline>'', [ArgStr (buildDate s)]),
          (''[vmcheck] Failed to get processor number!\<newline>'', []),
          (''[vmcheck] RDTSC with CPUID: %llu (%s)\<newline>'',
             [ArgU64 (RdtscCalculated (testResults s)),
              ArgStr (if RdtscFail (testResults s) then ''fail'' else ''ok'')]),
          (''[vmcheck] MSR TIMESTAMP with CPUID: %llu (%s)\<newline>'',
             [ArgU64 (TimestampCalculated (testResults s)),
              ArgStr (if TimestampFail (testResults s) then ''fail'' else ''ok'')]),
          (''[vmcheck] MSR APERF with CPUID: %llu (%s)\<newline>'',
             [ArgU64 (AperfCalculated (testResults s)),
              ArgStr (if AperfFail (testResults s) then ''fail'' else ''ok'')])]\<rparr>)"
    using assms by (rule DriverEntry_abort)
qed

theorem abort_log_lines_witness:
  "\<not> NT_SUCCESS (lookupStatus (testMachine of_nat True STATUS_INVALID_PARAMETER))
   \<and> (\<exists>s'. PerformTests (testMachine of_nat True STATUS_INVALID_PARAMETER) = Inr s'
         \<and> dbgLog s' = [(''[vmcheck] Failed to get processor number!\<newline>'', [])])"
proof -
  have "dbgLog (testMachine of_nat True STATUS_INVALID_PARAMETER) = []"
    by (simp add: testMachine_def)
  with abort_log_lines [OF abort_lookup [of of_nat True]] abort_lookup [of of_nat True]
  show ?thesis by simp
qed

text \<open>
  Claim C8, as stated, on a machine that enters \<open>PerformTests\<close> with interrupts
  disabled: the call completes and leaves them enabled.
\<close>

theorem interrupts_not_restored_counterexample:
  "\<not> isl (PerformTests (testMachine of_nat False STATUS_SUCCESS))
   \<and> \<not> interruptsEnabled (testMachine of_nat False STATUS_SUCCESS)
   \<and> interruptsEnabled (projr (PerformTests (testMachine of_nat False STATUS_SUCCESS)))"
proof -
  let ?m = "testMachine of_nat False STATUS_SUCCESS"
  obtain s' where s': "PerformTests ?m = Inr s'"
    using counting_run [of False] ..
  from PerformTests_completed [OF good_lookup s'] have "interruptsEnabled s'" by simp
  moreover have "\<not> interruptsEnabled ?m" by (simp add: testMachine_def)
  ultimately show ?thesis using s' by simp
qed

text \<open>
  Claim C8, amended. After every completed call of \<open>PerformTests\<close> the thread's
  affinity and the IRQL are what they were before the call. The interrupt flag is
  unchanged on the early-abort path; after the probes have run it is set, which is its
  value before the call only when interrupts were enabled then.
\<close>

theorem affinity_irql_restored:
  assumes "PerformTests s = Inr s'"
  shows "threadAffinity s' = threadAffinity s
    \<and> irql s' = irql s
    \<and> interruptsEnabled s' =
        (if NT_SUCCESS (lookupStatus s) then True else interruptsEnabled s)"
proof (cases "NT_SUCCESS (lookupStatus s)")
  case True
  from PerformTests_completed [OF True assms] True show ?thesis by simp
next
  case False
  with assms show ?thesis by (auto simp: PerformTests_abort)
qed

theorem affinity_irql_restored_witness:
  "(\<exists>s'. PerformTests (testMachine of_nat False STATUS_SUCCESS) = Inr s'
        \<and> threadAffinity s' = threadAffinity (testMachine of_nat False STATUS_SUCCESS)
        \<and> irql s' = irql (testMachine of_nat False STATUS_SUCCESS)
        \<and> interruptsEnabled s')
   \<and> (\<exists>s'. PerformTests (testMachine of_nat False STATUS_INVALID_PARAMETER) = Inr s'
        \<and> threadAffinity s' = threadAffinity (testMachine of_nat False STATUS_INVALID_PARAMETER)
        \<and> irql s' = irql (testMachine of_nat False STATUS_INVALID_PARAMETER)
        \<and> \<not> interruptsEnabled s')"
proof (intro conjI)
  let ?m = "testMachine of_nat False STATUS_SUCCESS"
  obtain x where x: "PerformTests ?m = Inr x"
    using counting_run [of False] ..
  from affinity_irql_restored [OF x] good_lookup [of of_nat False] x
  show "\<exists>s'. PerformTests ?m = Inr s'
        \<and> threadAffinity s' = threadAffinity ?m \<and> irql s' = irql ?m \<and> interruptsEnabled s'"
    by simp
next
  let ?m = "testMachine of_nat False STATUS_INVALID_PARAMETER"
  obtain y where y: "PerformTests ?m = Inr y"
    using PerformTests_abort [OF abort_lookup [of of_nat False]] by simp
  have "\<not> interruptsEnabled ?m" by (simp add: testMachine_def)
  with affinity_irql_restored [OF y] abort_lookup [of of_nat False] y
  show "\<exists>s'. PerformTests ?m = Inr s'
        \<and> threadAffinity s' = threadAffinity ?m \<and> irql s' = irql ?m \<and> \<not> interruptsEnabled s'"
    by simp
qed

text \<open>
  Claim C9, as stated, on a machine whose lookup succeeds and whose counter does not
  advance: the first calibration delta is zero, the division faults and \<open>DriverEntry\<close>
  returns nothing.
\<close>

theorem DriverEntry_faults_counterexample:
  "NT_SUCCESS (lookupStatus (testMachine stuckReadings True STATUS_SUCCESS))
   \<and> DriverEntry (testMachine stuckReadings True STATUS_SUCCESS) = Inl DivideError"
  by (simp add: DriverEntry_faults good_lookup) (simp add: testMachine_def stuckReadings_def)

text \<open>
  Claim C9, amended. Whatever \<open>DriverEntry\<close> returns is \<^verbatim>\<open>STATUS_SUCCESS\<close>, and it
  returns when the processor lookup fails, and when the lookup succeeds and both
  calibration deltas are other than zero. It does not return exactly when the lookup
  succeeds and the two calibration reads of \<open>RdtscTiming\<close> or of \<open>TimestampTiming\<close> are
  equal: then the division faults.
\<close>

theorem DriverEntry_status_success:
  "(\<forall>st s'. DriverEntry s = Inr (st, s') \<longrightarrow> st = STATUS_SUCCESS)
   \<and> (DriverEntry s = Inl DivideError \<or> (\<exists>s'. DriverEntry s = Inr (STATUS_SUCCESS, s')))
   \<and> (\<not> NT_SUCCESS (lookupStatus s) \<longrightarrow> (\<exists>s'. DriverEntry s = Inr (STATUS_SUCCESS, s')))
   \<and> (NT_SUCCESS (lookupStatus s)
        \<and> readings s (Suc (reads s)) \<noteq> readings s (reads s)
        \<and> readings s (Suc (reads s + 50002)) \<noteq> readings s (reads s + 50002)
        \<longrightarrow> (\<exists>s'. DriverEntry s = Inr (STATUS_SUCCESS, s')))
   \<and> (DriverEntry s = Inl DivideError) =
        (NT_SUCCESS (lookupStatus s)
         \<and> (readings s (Suc (reads s)) = readings s (reads s)
              \<or> readings s (Suc (reads s + 50002)) = readings s (reads s + 50002)))"
proof (intro conjI allI impI)
  fix st s' assume "DriverEntry s = Inr (st, s')"
  then show "st = STATUS_SUCCESS"
    by (auto simp: DriverEntry_cases split: sum.splits)
next
  show "DriverEntry s = Inl DivideError \<or> (\<exists>s'. DriverEntry s = Inr (STATUS_SUCCESS, s'))"
  proof (cases "PerformTests (Log ''Loaded. Build on %s.\<newline>'' [ArgStr (buildDate s)] s)")
    case (Inl f)
    then show ?thesis by (cases f) (simp add: DriverEntry_cases)
  next
    case (Inr s2)
    then show ?thesis by (simp add: DriverEntry_cases)
  qed
next
  assume "\<not> NT_SUCCESS (lookupStatus s)"
  then show "\<exists>s'. DriverEntry s = Inr (STATUS_SUCCESS, s')"
    by (simp add: DriverEntry_abort)
next
  let ?s1 = "Log ''Loaded. Build on %s.\<newline>'' [ArgStr (buildDate s)] s"
  assume a: "NT_SUCCESS (lookupStatus s)
        \<and> readings s (Suc (reads s)) \<noteq> readings s (reads s)
        \<and> readings s (Suc (reads s + 50002)) \<noteq> readings s (reads s + 50002)"
  have "\<exists>s2. PerformTests ?s1 = Inr s2"
    using a by (intro PerformTests_returns) simp_all
  then show "\<exists>s'. DriverEntry s = Inr (STATUS_SUCCESS, s')"
    by (auto simp: DriverEntry_cases)
next
  show "(DriverEntry s = Inl DivideError) =
        (NT_SUCCESS (lookupStatus s)
         \<and> (readings s (Suc (reads s)) = readings s (reads s)
              \<or> readings s (Suc (reads s + 50002)) = readings s (reads s + 50002)))"
    by (rule DriverEntry_faults)
qed

theorem DriverEntry_status_success_witness:
  "(\<exists>s'. DriverEntry (testMachine of_nat True STATUS_INVALID_PARAMETER) = Inr (STATUS_SUCCESS, s'))
   \<and> (\<exists>s'. DriverEntry (testMachine of_nat True STATUS_SUCCESS) = Inr (STATUS_SUCCESS, s'))"
proof (intro conjI)
  from DriverEntry_status_success [of "testMachine of_nat True STATUS_INVALID_PARAMETER"]
    abort_lookup [of of_nat True]
  show "\<exists>s'. DriverEntry (testMachine of_nat True STATUS_INVALID_PARAMETER) = Inr (STATUS_SUCCESS, s')"
    by blast
next
  let ?m = "testMachine of_nat True STATUS_SUCCESS"
  have r: "readings ?m = of_nat" "reads ?m = 0"
    by (simp_all add: testMachine_def)
  have "readings ?m (Suc (reads ?m)) \<noteq> readings ?m (reads ?m)"
    unfolding r by simp
  moreover have "readings ?m (Suc (reads ?m + 50002)) \<noteq> readings ?m (reads ?m + 50002)"
    unfolding r by simp
  ultimately show "\<exists>s'. DriverEntry ?m = Inr (STATUS_SUCCESS, s')"
    using DriverEntry_status_success [of ?m] good_lookup [of of_nat True] by blast
qed

end
